theory Spec2Isabelle
  imports Main "HOL-Library.Word"
begin

text \<open>
  A model of \<^verbatim>\<open>page.tsx\<close> of NoFeds: the class \<^verbatim>\<open>EncryptionManager\<close> (room keys, encryption
  and decryption of message text), the class \<^verbatim>\<open>RealTimeSync\<close> (the snapshot in
  \<^verbatim>\<open>localStorage\<close> and the broadcast channel) and the handlers of \<^verbatim>\<open>ChatApp\<close> that use
  them. Console output is not modelled.
\<close>

section \<open>Errors and the browser primitives the code calls\<close>

text \<open>
  Every \<^verbatim>\<open>throw\<close> and every rejected promise of \<^verbatim>\<open>page.tsx\<close> is a value of
  \<open>error\<close>; a function that may throw returns \<open>error + 'a\<close> with \<open>Inl\<close> the error.
  \<open>NoRoomKey\<close> is \<^verbatim>\<open>new Error("No room key found")\<close>; the others are the exceptions of
  the browser primitives: \<open>OperationError\<close> is what \<^verbatim>\<open>subtle.decrypt\<close> rejects with when
  the AES-GCM tag does not verify (the spec's AuthenticationFailure).
\<close>

datatype error =
    NoRoomKey
  | OperationError
  | InvalidCharacterError
  | CryptoUnavailable
  | SyntaxError
  | TypeError
  | QuotaExceededError
  | SecurityError
  | InvalidStateError
  | RangeError

type_synonym bytes = "8 word list"

text \<open>
  The Web Crypto and encoding primitives are not code of the repository: they are the
  fields of a record, and the code is modelled over any such record. \<open>'k\<close> is the opaque
  \<^verbatim>\<open>CryptoKey\<close>. \<open>subtle_encrypt k iv data\<close> is
  \<^verbatim>\<open>subtle.encrypt({name: "AES-GCM", iv}, k, data)\<close> (ciphertext followed by tag),
  \<open>subtle_decrypt\<close> its counterpart, \<open>text_encode\<close>/\<open>text_decode\<close> are
  \<^verbatim>\<open>TextEncoder.encode\<close>/\<^verbatim>\<open>TextDecoder.decode\<close>, \<open>btoa_bytes bs\<close> is
  \<^verbatim>\<open>btoa(String.fromCharCode(...bs))\<close> and \<open>atob_bytes s\<close> is
  \<^verbatim>\<open>atob(s).split("").map(c => c.charCodeAt(0))\<close>. \<open>argument_limit\<close> is the most
  arguments that the engine lets a call spread: \<^verbatim>\<open>String.fromCharCode(...bs)\<close> throws
  \<open>RangeError\<close> for a longer array.
\<close>

record 'k crypto_api =
  subtle_encrypt :: "'k \<Rightarrow> bytes \<Rightarrow> bytes \<Rightarrow> bytes"
  subtle_decrypt :: "'k \<Rightarrow> bytes \<Rightarrow> bytes \<Rightarrow> error + bytes"
  text_encode :: "string \<Rightarrow> bytes"
  text_decode :: "bytes \<Rightarrow> string"
  btoa_bytes :: "bytes \<Rightarrow> string"
  atob_bytes :: "string \<Rightarrow> error + bytes"
  argument_limit :: nat

text \<open>
  \<^verbatim>\<open>window.crypto.getRandomValues(new Uint8Array(n))\<close>: the array of \<open>n\<close> bytes is
  filled from the entropy \<open>rnd\<close> that the browser supplies to this call.
\<close>

definition getRandomValues :: "(nat \<Rightarrow> 8 word) \<Rightarrow> nat \<Rightarrow> bytes" where
  "getRandomValues rnd n = map rnd [0..<n]"

section \<open>EncryptionManager\<close>

text \<open>
  The two private fields of the class. \<open>'kp\<close> is the \<^verbatim>\<open>CryptoKeyPair\<close>, \<open>roomKeys\<close> the
  \<^verbatim>\<open>Map<string, CryptoKey>\<close>.
\<close>

record ('kp, 'k) encryption_manager =
  keyPair :: "'kp option"
  roomKeys :: "string \<rightharpoonup> 'k"

definition new_EncryptionManager :: "('kp, 'k) encryption_manager" where
  "new_EncryptionManager = \<lparr>keyPair = None, roomKeys = Map.empty\<rparr>"

text \<open>
  \<open>generated\<close> is the outcome of \<^verbatim>\<open>subtle.generateKey\<close> in this call: a fresh key, or the
  rejection of the provider. \<open>generateKeyPair\<close> asks the provider only when no pair is
  stored.
\<close>

definition generateKeyPair ::
  "error + 'kp \<Rightarrow> ('kp, 'k) encryption_manager \<Rightarrow> (error + 'kp) \<times> ('kp, 'k) encryption_manager" where
  "generateKeyPair generated em =
     (case keyPair em of
        Some kp \<Rightarrow> (Inr kp, em)
      | None \<Rightarrow>
          (case generated of
             Inl e \<Rightarrow> (Inl e, em)
           | Inr kp \<Rightarrow> (Inr kp, em\<lparr>keyPair := Some kp\<rparr>)))"

text \<open>\<open>generateRoomKey\<close> has no such test: it generates, stores under \<open>roomId\<close>, returns.\<close>

definition generateRoomKey ::
  "error + 'k \<Rightarrow> string \<Rightarrow> ('kp, 'k) encryption_manager \<Rightarrow> (error + 'k) \<times> ('kp, 'k) encryption_manager" where
  "generateRoomKey generated roomId em =
     (case generated of
        Inl e \<Rightarrow> (Inl e, em)
      | Inr roomKey \<Rightarrow> (Inr roomKey, em\<lparr>roomKeys := (roomKeys em)(roomId \<mapsto> roomKey)\<rparr>))"

definition encryptMessage ::
  "'k crypto_api \<Rightarrow> ('kp, 'k) encryption_manager \<Rightarrow> (nat \<Rightarrow> 8 word) \<Rightarrow> string \<Rightarrow> string \<Rightarrow> error + string" where
  "encryptMessage P em rnd message roomId =
     (case roomKeys em roomId of
        None \<Rightarrow> Inl NoRoomKey
      | Some roomKey \<Rightarrow>
          (let data = text_encode P message;
               iv = getRandomValues rnd 12;
               encrypted = subtle_encrypt P roomKey iv data;
               combined = iv @ encrypted
           in if length combined \<le> argument_limit P then Inr (btoa_bytes P combined)
              else Inl RangeError))"

definition decryptMessage ::
  "'k crypto_api \<Rightarrow> ('kp, 'k) encryption_manager \<Rightarrow> string \<Rightarrow> string \<Rightarrow> error + string" where
  "decryptMessage P em encryptedMessage roomId =
     (case roomKeys em roomId of
        None \<Rightarrow> Inl NoRoomKey
      | Some roomKey \<Rightarrow>
          (case atob_bytes P encryptedMessage of
             Inl e \<Rightarrow> Inl e
           | Inr combined \<Rightarrow>
               (let iv = take 12 combined;
                    encrypted = drop 12 combined
                in case subtle_decrypt P roomKey iv encrypted of
                     Inl e \<Rightarrow> Inl e
                   | Inr decrypted \<Rightarrow> Inr (text_decode P decrypted))))"

section \<open>The data model\<close>

text \<open>
  A stored message, as \<^verbatim>\<open>interface ChatMessage\<close> declares it; \<^verbatim>\<open>joinRoom\<close> also writes
  the type \<^verbatim>\<open>"join"\<close>. Dates are milliseconds. An optional field is an \<open>option\<close>.
\<close>

datatype message_kind = UserMessage | SystemMessage | JoinMessage

record chat_message =
  msg_id :: string
  content :: string
  sender :: string
  senderId :: string
  timestamp :: int
  msg_type :: message_kind
  encrypted :: "bool option"

text \<open>The entries of the shared snapshot.\<close>

datatype presence = Online | Away | Busy

record user =
  user_id :: string
  user_nickname :: string
  status :: presence
  joinedAt :: int
  user_avatar :: "string option"
  statusMessage :: "string option"
  lastSeen :: "int option"
  email :: "string option"
  hasAccount :: bool

record account =
  acc_id :: string
  acc_nickname :: string
  password :: string
  createdAt :: int
  acc_avatar :: "string option"
  isTemporary :: "bool option"

record room =
  room_id :: string
  room_name :: string
  userCount :: nat
  hasPassword :: bool
  room_password :: "string option"
  description :: "string option"
  createdBy :: string

text \<open>
  \<^verbatim>\<open>interface AppData\<close>. \<^verbatim>\<open>saveData\<close> and \<^verbatim>\<open>loadData\<close> are typed \<^verbatim>\<open>any\<close>, the
  handlers read every field through \<^verbatim>\<open>?.\<close> or \<^verbatim>\<open>||\<close>, and \<^verbatim>\<open>handleSignup\<close> on
  an empty store saves an object that has \<^verbatim>\<open>accounts\<close> only: a field that is missing
  is \<open>None\<close>.
\<close>

record app_data =
  users :: "user list option"
  rooms :: "room list option"
  messages :: "(string \<rightharpoonup> chat_message list) option"
  accounts :: "account list option"

text \<open>The literal \<^verbatim>\<open>{ users: [], rooms: [], messages: {}, accounts: [] }\<close>.\<close>

definition empty_app_data :: app_data where
  "empty_app_data = \<lparr>users = Some [], rooms = Some [], messages = Some Map.empty, accounts = Some []\<rparr>"

text \<open>\<^verbatim>\<open>xs || []\<close> for a field that holds an array or is missing.\<close>

definition or_empty :: "'a list option \<Rightarrow> 'a list" where
  "or_empty v = (case v of None \<Rightarrow> [] | Some xs \<Rightarrow> xs)"

section \<open>Storage, JSON and the broadcast channel\<close>

text \<open>
  \<open>'s\<close> is the text that \<^verbatim>\<open>JSON.stringify\<close> produces and \<^verbatim>\<open>localStorage\<close> holds.
  \<open>JSON_parse\<close> throws \<open>SyntaxError\<close> on a payload that is not JSON and returns \<open>None\<close>
  for a payload whose value is falsy (\<^verbatim>\<open>null\<close>). \<open>empty_text\<close> is the test
  \<^verbatim>\<open>text === ""\<close>, \<open>storage_accepts\<close> says whether \<^verbatim>\<open>localStorage.setItem\<close> takes the
  value (it throws when the quota is exceeded), \<open>storage_readable\<close> whether
  \<^verbatim>\<open>localStorage.getItem\<close> is allowed.
\<close>

record 's storage_api =
  JSON_stringify :: "app_data \<Rightarrow> 's"
  JSON_parse :: "'s \<Rightarrow> error + app_data option"
  empty_text :: "'s \<Rightarrow> bool"
  storage_accepts :: "'s \<Rightarrow> bool"
  storage_readable :: bool

text \<open>
  The two message shapes posted on the channel: \<^verbatim>\<open>{type: "data-update", data}\<close> by
  \<^verbatim>\<open>saveData\<close> and \<^verbatim>\<open>{type: "update", key, data}\<close> by \<^verbatim>\<open>broadcastUpdate\<close>.
\<close>

datatype bus_msg = DataUpdate app_data | Update string "user list"

text \<open>
  What a replica can change outside itself: the device's \<^verbatim>\<open>localStorage\<close> and the
  messages it has posted on the channel \<^verbatim>\<open>"nofeds-sync"\<close>, oldest first.
\<close>

record 's world =
  localStorage :: "string \<rightharpoonup> 's"
  bus :: "bus_msg list"

text \<open>
  A computation of the page: it reads and changes the world and either returns or
  throws. \<open>js_catch\<close> is \<^verbatim>\<open>try { ... } catch (error) { ... }\<close>: the effects made before the
  throw stay.
\<close>

type_synonym ('a, 's) js = "'s world \<Rightarrow> (error + 'a) \<times> 's world"

definition js_return :: "'a \<Rightarrow> ('a, 's) js" where
  "js_return x w = (Inr x, w)"

definition js_bind :: "('a, 's) js \<Rightarrow> ('a \<Rightarrow> ('b, 's) js) \<Rightarrow> ('b, 's) js" where
  "js_bind m f w = (case m w of (Inl e, w') \<Rightarrow> (Inl e, w') | (Inr x, w') \<Rightarrow> f x w')"

definition js_catch :: "('a, 's) js \<Rightarrow> (error \<Rightarrow> ('a, 's) js) \<Rightarrow> ('a, 's) js" where
  "js_catch m h w = (case m w of (Inl e, w') \<Rightarrow> h e w' | (Inr x, w') \<Rightarrow> (Inr x, w'))"

definition js_lift :: "error + 'a \<Rightarrow> ('a, 's) js" where
  "js_lift r w = (r, w)"

definition localStorage_setItem :: "'s storage_api \<Rightarrow> string \<Rightarrow> 's \<Rightarrow> (unit, 's) js" where
  "localStorage_setItem S key v w =
     (if storage_accepts S v then (Inr (), w\<lparr>localStorage := (localStorage w)(key \<mapsto> v)\<rparr>)
      else (Inl QuotaExceededError, w))"

definition localStorage_getItem :: "'s storage_api \<Rightarrow> string \<Rightarrow> ('s option, 's) js" where
  "localStorage_getItem S key w =
     (if storage_readable S then (Inr (localStorage w key), w) else (Inl SecurityError, w))"

text \<open>
  A \<^verbatim>\<open>BroadcastChannel\<close> object: whether \<^verbatim>\<open>close()\<close> was called on it and its
  \<^verbatim>\<open>"message"\<close> listeners, which act on the replica's state \<open>'st\<close>. \<^verbatim>\<open>postMessage\<close> on a
  closed channel throws \<open>InvalidStateError\<close> and posts nothing; a message posted by
  another replica is dispatched to the listeners of a channel that is not closed.
\<close>

record 'st broadcast_channel =
  closed :: bool
  listeners :: "(bus_msg \<Rightarrow> 'st \<Rightarrow> 'st) list"

definition postMessage :: "'st broadcast_channel \<Rightarrow> bus_msg \<Rightarrow> (unit, 's) js" where
  "postMessage ch m w =
     (if closed ch then (Inl InvalidStateError, w) else (Inr (), w\<lparr>bus := bus w @ [m]\<rparr>))"

definition dispatch :: "'st broadcast_channel \<Rightarrow> bus_msg \<Rightarrow> 'st \<Rightarrow> 'st" where
  "dispatch ch event st = (if closed ch then st else fold (\<lambda>l s. l event s) (listeners ch) st)"

section \<open>RealTimeSync\<close>

record 'st real_time_sync =
  channel :: "'st broadcast_channel option"

definition storageKey :: string where
  "storageKey = ''nofeds-app-data''"

text \<open>The constructor: \<open>created\<close> is False when \<^verbatim>\<open>new BroadcastChannel\<close> throws.\<close>

definition new_RealTimeSync :: "bool \<Rightarrow> 'st real_time_sync" where
  "new_RealTimeSync created =
     (if created then \<lparr>channel = Some \<lparr>closed = False, listeners = []\<rparr>\<rparr>
      else \<lparr>channel = None\<rparr>)"

definition saveData :: "'s storage_api \<Rightarrow> 'st real_time_sync \<Rightarrow> app_data \<Rightarrow> (unit, 's) js" where
  "saveData S sync data =
     js_catch
       (js_bind (localStorage_setItem S storageKey (JSON_stringify S data)) (\<lambda>_.
          case channel sync of
            None \<Rightarrow> js_return ()
          | Some ch \<Rightarrow> postMessage ch (DataUpdate data)))
       (\<lambda>error. js_return ())"

definition loadData :: "'s storage_api \<Rightarrow> (app_data option, 's) js" where
  "loadData S =
     js_catch
       (js_bind (localStorage_getItem S storageKey) (\<lambda>stored.
          case stored of
            None \<Rightarrow> js_return None
          | Some text \<Rightarrow> if empty_text S text then js_return None else js_lift (JSON_parse S text)))
       (\<lambda>error. js_return None)"

definition onUpdate :: "(app_data \<Rightarrow> 'st \<Rightarrow> 'st) \<Rightarrow> 'st real_time_sync \<Rightarrow> 'st real_time_sync" where
  "onUpdate callback sync =
     (case channel sync of
        None \<Rightarrow> sync
      | Some ch \<Rightarrow>
          sync\<lparr>channel := Some (ch\<lparr>listeners := listeners ch @
            [\<lambda>event st. case event of DataUpdate data \<Rightarrow> callback data st | Update key data \<Rightarrow> st]\<rparr>)\<rparr>)"

definition broadcastUpdate :: "'st real_time_sync \<Rightarrow> string \<Rightarrow> user list \<Rightarrow> (unit, 's) js" where
  "broadcastUpdate sync key data =
     (case channel sync of
        None \<Rightarrow> js_return ()
      | Some ch \<Rightarrow> js_catch (postMessage ch (Update key data)) (\<lambda>error. js_return ()))"

definition close :: "'st real_time_sync \<Rightarrow> 'st real_time_sync" where
  "close sync =
     (case channel sync of
        None \<Rightarrow> sync
      | Some ch \<Rightarrow> sync\<lparr>channel := Some (ch\<lparr>closed := True\<rparr>)\<rparr>)"

text \<open>A message from another replica arrives at this instance.\<close>

definition receive :: "'st real_time_sync \<Rightarrow> bus_msg \<Rightarrow> 'st \<Rightarrow> 'st" where
  "receive sync event st = (case channel sync of None \<Rightarrow> st | Some ch \<Rightarrow> dispatch ch event st)"

section \<open>ChatApp\<close>

text \<open>
  What the state variable \<^verbatim>\<open>messages\<close> can hold: an array of messages or, once a lookup
  in a plain object has hit a member that every object inherits from
  \<^verbatim>\<open>Object.prototype\<close>, that member (a function or the prototype object), which is no
  array.
\<close>

datatype messages_value = MessageList "chat_message list" | InheritedMember string

definition Object_prototype_keys :: "string list" where
  "Object_prototype_keys =
     [''constructor'', ''hasOwnProperty'', ''isPrototypeOf'', ''propertyIsEnumerable'',
      ''toLocaleString'', ''toString'', ''valueOf'', ''__proto__'', ''__defineGetter__'',
      ''__defineSetter__'', ''__lookupGetter__'', ''__lookupSetter__'']"

text \<open>
  \<^verbatim>\<open>obj[key]\<close> on the plain object \<^verbatim>\<open>data.messages\<close>: an own property first, then a
  member inherited from \<^verbatim>\<open>Object.prototype\<close>, else \<^verbatim>\<open>undefined\<close>.
\<close>

definition object_get :: "(string \<rightharpoonup> chat_message list) \<Rightarrow> string \<Rightarrow> messages_value option" where
  "object_get obj key =
     (case obj key of
        Some xs \<Rightarrow> Some (MessageList xs)
      | None \<Rightarrow> if key \<in> set Object_prototype_keys then Some (InheritedMember key) else None)"

text \<open>The \<^verbatim>\<open>useState\<close> variables that the modelled handlers read or set.\<close>

record chat_state =
  nickname :: string
  currentUser :: string
  currentUserId :: string
  onlineUsers :: "user list"
  chatRooms :: "room list"
  selectedRoom :: "string option"
  messages_state :: messages_value
  currentAccount :: "account option"


text \<open>A string or \<^verbatim>\<open>null\<close> in a condition: \<^verbatim>\<open>null\<close> and \<^verbatim>\<open>""\<close> are falsy.\<close>

definition truthy :: "string option \<Rightarrow> bool" where
  "truthy v = (case v of None \<Rightarrow> False | Some s \<Rightarrow> s \<noteq> [])"

text \<open>
  The callback that the main \<^verbatim>\<open>useEffect\<close> passes to \<^verbatim>\<open>syncManager.onUpdate\<close>. It closes
  over \<^verbatim>\<open>selectedRoom\<close> and \<^verbatim>\<open>nickname\<close> of the render in which the effect ran
  (\<open>room\<close> and \<open>nick\<close>); the setters act on the state at the time of the call. An array
  and an inherited member are truthy, so \<^verbatim>\<open>|| []\<close> replaces \<^verbatim>\<open>undefined\<close> only.
\<close>

definition onUpdate_callback :: "string option \<Rightarrow> string \<Rightarrow> app_data \<Rightarrow> chat_state \<Rightarrow> chat_state" where
  "onUpdate_callback room nick data st =
     st\<lparr>onlineUsers := or_empty (users data),
        chatRooms := or_empty (rooms data),
        messages_state :=
          (case messages data of
             None \<Rightarrow> messages_state st
           | Some m \<Rightarrow>
               (case room of
                  None \<Rightarrow> messages_state st
                | Some r \<Rightarrow>
                    if r = [] then messages_state st
                    else (case object_get m r of None \<Rightarrow> MessageList [] | Some v \<Rightarrow> v))),
        currentAccount :=
          (if nick \<noteq> []
           then (case accounts data of
                   None \<Rightarrow> None
                 | Some accs \<Rightarrow> find (\<lambda>acc. acc_nickname acc = nick) accs)
           else currentAccount st)\<rparr>"



text \<open>
  \<^verbatim>\<open>handleBeforeUnload\<close>, with the state the effect closed over. The outer \<^verbatim>\<open>try\<close> has
  nothing to catch that \<^verbatim>\<open>loadData\<close> and \<^verbatim>\<open>saveData\<close> have not caught.
\<close>

definition handleBeforeUnload ::
  "'s storage_api \<Rightarrow> 'st real_time_sync \<Rightarrow> chat_state \<Rightarrow> (unit, 's) js" where
  "handleBeforeUnload S syncManager st =
     js_catch
       (case currentAccount st of
          None \<Rightarrow> js_return ()
        | Some acct \<Rightarrow>
            if isTemporary acct = Some True then
              js_bind (loadData S) (\<lambda>savedData.
              js_bind
                (case savedData of
                   None \<Rightarrow> js_return ()
                 | Some saved \<Rightarrow>
                     (case accounts saved of
                        None \<Rightarrow> js_return ()
                      | Some accs \<Rightarrow>
                          (let updatedAccounts = filter (\<lambda>acc. acc_id acc \<noteq> acc_id acct) accs;
                               updatedData = saved\<lparr>accounts := Some updatedAccounts\<rparr>
                           in saveData S syncManager updatedData))) (\<lambda>_.
              let updatedUsers = filter (\<lambda>user. user_id user \<noteq> currentUserId st) (onlineUsers st)
              in js_bind (loadData S) (\<lambda>loaded.
                 let currentData = (case loaded of None \<Rightarrow> empty_app_data | Some d \<Rightarrow> d);
                     appData = currentData\<lparr>users := Some updatedUsers\<rparr>
                 in saveData S syncManager appData)))
            else js_return ())
       (\<lambda>error. js_return ())"

text \<open>
  \<^verbatim>\<open>joinRoom\<close>: \<open>now\<close> is \<^verbatim>\<open>Date.now()\<close>, \<open>generated\<close> the outcome of the key
  generation. A failure of \<^verbatim>\<open>generateRoomKey\<close> is logged and the join goes on.
\<close>

definition joinRoom ::
  "error + 'k \<Rightarrow> int \<Rightarrow> string \<Rightarrow> ('kp, 'k) encryption_manager \<times> chat_state \<Rightarrow>
     ('kp, 'k) encryption_manager \<times> chat_state" where
  "joinRoom generated now roomId = (\<lambda>(encryptionManager, st).
     let room = find (\<lambda>r. room_id r = roomId) (chatRooms st);
         em' = snd (generateRoomKey generated roomId encryptionManager);
         initialMessages =
           [\<lparr>msg_id = ''system-1'',
             content = ''Welcome to '' @ (case room of None \<Rightarrow> ''undefined'' | Some r \<Rightarrow> room_name r)
               @ ''! '' @ (case room of None \<Rightarrow> [] | Some r \<Rightarrow>
                   (case description r of None \<Rightarrow> [] | Some d \<Rightarrow> d)),
             sender = ''System'', senderId = ''system'',
             timestamp = now - 1000 * 60 * 30, msg_type = SystemMessage, encrypted = None\<rparr>,
            \<lparr>msg_id = ''join-1'',
             content = currentUser st @ '' joined the room'',
             sender = ''System'', senderId = ''system'',
             timestamp = now, msg_type = JoinMessage, encrypted = None\<rparr>]
     in (em', st\<lparr>selectedRoom := Some roomId, messages_state := MessageList initialMessages\<rparr>))"

text \<open>
  \<^verbatim>\<open>getDisplayContent\<close>: any error of \<^verbatim>\<open>decryptMessage\<close> is caught and the fixed
  placeholder is shown.
\<close>

definition decryption_failed :: string where
  "decryption_failed = ''[Encrypted message - decryption failed]''"

definition getDisplayContent ::
  "'k crypto_api \<Rightarrow> ('kp, 'k) encryption_manager \<Rightarrow> chat_state \<Rightarrow> chat_message \<Rightarrow> string" where
  "getDisplayContent P encryptionManager st message =
     (if encrypted message \<noteq> Some True \<or> \<not> truthy (selectedRoom st) then content message
      else (case selectedRoom st of
              None \<Rightarrow> content message
            | Some room \<Rightarrow>
                (case decryptMessage P encryptionManager (content message) room of
                   Inr text \<Rightarrow> text
                 | Inl error \<Rightarrow> decryption_failed)))"

section \<open>What the code relies on from the browser\<close>

text \<open>
  AES-GCM decrypts what it encrypted under the same key and nonce; the base64 decoder
  inverts the encoder. \<open>aead_key_binding\<close> is the idealisation behind
  authenticated encryption: a ciphertext made under one key does not verify under
  another (for AES-GCM this holds up to a negligible probability). \<open>text_round_trips\<close>
  is about one string: \<^verbatim>\<open>TextDecoder\<close> gives back what \<^verbatim>\<open>TextEncoder\<close> encoded, as it
  does for well-formed text (\<^verbatim>\<open>TextEncoder\<close> replaces an unpaired surrogate, and
  \<^verbatim>\<open>TextDecoder\<close> drops a leading byte order mark).
\<close>

definition aead_correct :: "'k crypto_api \<Rightarrow> bool" where
  "aead_correct P = (\<forall>k iv data. subtle_decrypt P k iv (subtle_encrypt P k iv data) = Inr data)"

definition aead_key_binding :: "'k crypto_api \<Rightarrow> bool" where
  "aead_key_binding P =
     (\<forall>k k' iv data. k \<noteq> k' \<longrightarrow>
        subtle_decrypt P k' iv (subtle_encrypt P k iv data) = Inl OperationError)"

definition base64_inverts :: "'k crypto_api \<Rightarrow> bool" where
  "base64_inverts P = (\<forall>bs. atob_bytes P (btoa_bytes P bs) = Inr bs)"

definition text_round_trips :: "'k crypto_api \<Rightarrow> string \<Rightarrow> bool" where
  "text_round_trips P message = (text_decode P (text_encode P message) = message)"

text \<open>\<^verbatim>\<open>JSON.parse\<close> gives back the snapshot that \<^verbatim>\<open>JSON.stringify\<close> wrote, which is not \<^verbatim>\<open>""\<close>.\<close>

definition json_inverts :: "'s storage_api \<Rightarrow> bool" where
  "json_inverts S =
     (\<forall>d. JSON_parse S (JSON_stringify S d) = Inr (Some d) \<and> \<not> empty_text S (JSON_stringify S d))"

section \<open>A reference platform and concrete inputs\<close>

text \<open>
  Small executable instances of the two records, on which the model runs on concrete
  inputs. The key is one byte and the tag is the key. A string stands for its UTF-8
  bytes: the encoder maps a character to the byte with its code, and the decoder, as
  \<^verbatim>\<open>TextDecoder\<close> does, first drops a leading byte order mark (the three bytes of
  U+FEFF). Base64 maps a byte to the character with that code. A call spreads at most
  65535 arguments. A stored text is either the JSON of a value or not JSON.
\<close>

definition byte_order_mark :: bytes where
  "byte_order_mark = [0xEF, 0xBB, 0xBF]"

definition ref_crypto :: "8 word crypto_api" where
  "ref_crypto =
     \<lparr>subtle_encrypt = (\<lambda>k iv data. data @ [k]),
      subtle_decrypt = (\<lambda>k iv c. if c \<noteq> [] \<and> last c = k then Inr (butlast c) else Inl OperationError),
      text_encode = map (\<lambda>c. of_nat (of_char c)),
      text_decode = (\<lambda>bs. map (\<lambda>b. char_of (unat b))
                            (if take 3 bs = byte_order_mark then drop 3 bs else bs)),
      btoa_bytes = map (\<lambda>b. char_of (unat b)),
      atob_bytes = (\<lambda>s. Inr (map (\<lambda>c. of_nat (of_char c)) s)),
      argument_limit = 65535\<rparr>"

datatype ref_text = Json "app_data option" | NotJson

definition ref_storage :: "ref_text storage_api" where
  "ref_storage =
     \<lparr>JSON_stringify = (\<lambda>d. Json (Some d)),
      JSON_parse = (\<lambda>t. case t of Json v \<Rightarrow> Inr v | NotJson \<Rightarrow> Inl SyntaxError),
      empty_text = (\<lambda>t. False),
      storage_accepts = (\<lambda>t. True),
      storage_readable = True\<rparr>"

definition full_storage :: "ref_text storage_api" where
  "full_storage = ref_storage\<lparr>storage_accepts := (\<lambda>t. False)\<rparr>"

text \<open>A manager that holds key \<open>1\<close> for the room \<^verbatim>\<open>"general"\<close>, and one that holds key \<open>2\<close>.\<close>

definition manager_A :: "(nat, 8 word) encryption_manager" where
  "manager_A = snd (generateRoomKey (Inr 1) ''general'' new_EncryptionManager)"

definition manager_B :: "(nat, 8 word) encryption_manager" where
  "manager_B = snd (generateRoomKey (Inr 2) ''general'' new_EncryptionManager)"

definition zero_entropy :: "nat \<Rightarrow> 8 word" where
  "zero_entropy i = 0"

definition one_entropy :: "nat \<Rightarrow> 8 word" where
  "one_entropy i = 1"

text \<open>
  A message that replica A encrypted in \<^verbatim>\<open>"general"\<close>, the state of a replica that has
  that room open, and manager A after a second \<open>generateRoomKey\<close> for the same room.
\<close>

definition message_from_A :: chat_message where
  "message_from_A =
     \<lparr>msg_id = ''1700000000000'',
      content = (case encryptMessage ref_crypto manager_A zero_entropy ''hello'' ''general'' of
                   Inr envelope \<Rightarrow> envelope | Inl e \<Rightarrow> []),
      sender = ''alice'', senderId = ''1'', timestamp = 1700000000000,
      msg_type = UserMessage, encrypted = Some True\<rparr>"

definition state_in_general :: chat_state where
  "state_in_general =
     \<lparr>nickname = ''bob'', currentUser = ''bob'', currentUserId = ''2'',
      onlineUsers = [], chatRooms = [], selectedRoom = Some ''general'',
      messages_state = MessageList [message_from_A], currentAccount = None\<rparr>"

definition manager_A_rejoined :: "(nat, 8 word) encryption_manager" where
  "manager_A_rejoined = snd (generateRoomKey (Inr 2) ''general'' manager_A)"

text \<open>
  Concrete snapshots and worlds: a temporary account and the user made from it, a second
  user and a permanent account, the snapshot that holds them, and worlds whose store is
  empty, holds the snapshot, or holds a payload that is not JSON.
\<close>

definition account_tmp :: account where
  "account_tmp =
     \<lparr>acc_id = ''1700000000001'', acc_nickname = ''tess'', password = [],
      createdAt = 1700000000001, acc_avatar = Some ''/welcome-new-user.png'',
      isTemporary = Some True\<rparr>"

definition account_carol :: account where
  "account_carol =
     \<lparr>acc_id = ''1600000000000'', acc_nickname = ''carol'', password = ''secret'',
      createdAt = 1600000000000, acc_avatar = Some ''/welcome-new-user.png'',
      isTemporary = Some False\<rparr>"

definition user_tmp :: user where
  "user_tmp =
     \<lparr>user_id = ''1700000000002'', user_nickname = ''tess'', status = Online,
      joinedAt = 1700000000002, user_avatar = Some ''/welcome-new-user.png'',
      statusMessage = Some ''Just joined!'', lastSeen = None, email = None, hasAccount = True\<rparr>"

definition user_dave :: user where
  "user_dave =
     \<lparr>user_id = ''1700000000500'', user_nickname = ''dave'', status = Busy,
      joinedAt = 1700000000500, user_avatar = Some ''/welcome-new-user.png'',
      statusMessage = Some ''Just joined!'', lastSeen = None, email = None, hasAccount = False\<rparr>"

definition room_general :: room where
  "room_general =
     \<lparr>room_id = ''general'', room_name = ''General'', userCount = 1, hasPassword = False,
      room_password = None, description = None, createdBy = ''carol''\<rparr>"

definition snapshot_0 :: app_data where
  "snapshot_0 =
     \<lparr>users = Some [user_tmp, user_dave], rooms = Some [room_general],
      messages = Some [''general'' \<mapsto> [message_from_A]],
      accounts = Some [account_tmp, account_carol]\<rparr>"

definition world_empty :: "ref_text world" where
  "world_empty = \<lparr>localStorage = Map.empty, bus = []\<rparr>"

definition world_0 :: "ref_text world" where
  "world_0 = \<lparr>localStorage = [storageKey \<mapsto> Json (Some snapshot_0)], bus = []\<rparr>"

definition world_corrupt :: "ref_text world" where
  "world_corrupt = \<lparr>localStorage = [storageKey \<mapsto> NotJson], bus = []\<rparr>"

definition sync_0 :: "chat_state real_time_sync" where
  "sync_0 = new_RealTimeSync True"

text \<open>
  The replica of the temporary session: \<open>state_tmp\<close> mirrors the stored users,
  \<open>state_tmp_stale\<close> has not seen that the second user joined.
\<close>

definition state_tmp :: chat_state where
  "state_tmp =
     \<lparr>nickname = ''tess'', currentUser = ''tess'', currentUserId = ''1700000000002'',
      onlineUsers = [user_tmp, user_dave], chatRooms = [room_general], selectedRoom = None,
      messages_state = MessageList [], currentAccount = Some account_tmp\<rparr>"

definition state_tmp_stale :: chat_state where
  "state_tmp_stale = state_tmp\<lparr>onlineUsers := [user_tmp]\<rparr>"

text \<open>
  \<^verbatim>\<open>"hello"\<close> with U+FEFF in front, as its UTF-8 bytes; a plaintext of 65536 characters;
  and an entropy that gives a call the same 12 bytes as \<open>zero_entropy\<close> does.
\<close>

definition marked_hello :: string where
  "marked_hello = [CHR 0xEF, CHR 0xBB, CHR 0xBF] @ ''hello''"

definition long_plaintext :: string where
  "long_plaintext = replicate 65536 (CHR ''a'')"

definition repeated_entropy :: "nat \<Rightarrow> 8 word" where
  "repeated_entropy i = (if i < 12 then 0 else 1)"













section \<open>Theorems\<close>

lemma length_getRandomValues: "length (getRandomValues rnd n) = n"
  by (simp add: getRandomValues_def)

lemma ref_crypto_aead_correct: "aead_correct ref_crypto"
  by (simp add: aead_correct_def ref_crypto_def)

lemma ref_crypto_aead_key_binding: "aead_key_binding ref_crypto"
  by (simp add: aead_key_binding_def ref_crypto_def)

lemma byte_char_byte: "(of_nat (of_char (char_of (unat (b :: 8 word)))) :: 8 word) = b"
proof -
  have "unat b < 2 ^ LENGTH(8)"
    by (rule unsigned_less)
  then show ?thesis by simp
qed

lemma char_byte_char: "char_of (unat (of_nat (of_char c) :: 8 word)) = c"
  by (simp add: unat_of_nat)

lemma ref_crypto_base64_inverts: "base64_inverts ref_crypto"
proof -
  have "map (\<lambda>c. of_nat (of_char c) :: 8 word) (map (\<lambda>b. char_of (unat b)) bs) = bs" for bs
    by (induction bs) (simp_all only: list.map byte_char_byte)
  then show ?thesis
    by (simp only: base64_inverts_def ref_crypto_def crypto_api.simps) simp
qed

lemma ref_crypto_decode_encode:
  "map (\<lambda>b. char_of (unat b)) (map (\<lambda>c. of_nat (of_char c) :: 8 word) message) = message"
  by (induction message) (simp_all only: list.map char_byte_char)

text \<open>The reference decoder gives back every string that does not start with the mark.\<close>

lemma ref_crypto_text_round_trips:
  assumes "take 3 (text_encode ref_crypto message) \<noteq> byte_order_mark"
  shows "text_round_trips ref_crypto message"
  using assms ref_crypto_decode_encode [of message]
  by (simp add: text_round_trips_def ref_crypto_def)

lemma hello_round_trips: "text_round_trips ref_crypto ''hello''"
  by (rule ref_crypto_text_round_trips) (simp add: ref_crypto_def byte_order_mark_def)

lemma ref_storage_json_inverts: "json_inverts ref_storage"
  by (simp add: json_inverts_def ref_storage_def)

lemma manager_A_key: "roomKeys manager_A ''general'' = Some 1"
  by (simp add: manager_A_def generateRoomKey_def new_EncryptionManager_def)

lemma manager_B_key: "roomKeys manager_B ''general'' = Some 2"
  by (simp add: manager_B_def generateRoomKey_def new_EncryptionManager_def)

text \<open>
  What \<open>encryptMessage\<close> does for a room with a key: the envelope, or \<open>RangeError\<close> when
  nonce and ciphertext are too many to spread. What \<open>decryptMessage\<close> of any manager
  makes of such an envelope: the nonce is recovered by \<open>take 12\<close> because the drawn
  array has 12 bytes.
\<close>

lemma encryptMessage_value:
  assumes "roomKeys em roomId = Some roomKey"
  shows "encryptMessage P em rnd message roomId =
           (if 12 + length (subtle_encrypt P roomKey (getRandomValues rnd 12) (text_encode P message))
                 \<le> argument_limit P
            then Inr (btoa_bytes P (getRandomValues rnd 12 @
                   subtle_encrypt P roomKey (getRandomValues rnd 12) (text_encode P message)))
            else Inl RangeError)"
  using assms by (simp add: encryptMessage_def Let_def length_getRandomValues)

lemma encryptMessage_envelope:
  assumes "roomKeys em roomId = Some roomKey"
    and "encryptMessage P em rnd message roomId = Inr envelope"
  shows "envelope = btoa_bytes P (getRandomValues rnd 12 @
           subtle_encrypt P roomKey (getRandomValues rnd 12) (text_encode P message))"
  using assms(2) by (simp add: encryptMessage_value [OF assms(1)] split: if_splits)

lemma decryptMessage_of_envelope:
  assumes "base64_inverts P" and "roomKeys em' roomId = Some roomKey'"
  shows "decryptMessage P em' (btoa_bytes P (getRandomValues rnd 12 @ ciphertext)) roomId =
           (case subtle_decrypt P roomKey' (getRandomValues rnd 12) ciphertext of
              Inl e \<Rightarrow> Inl e
            | Inr decrypted \<Rightarrow> Inr (text_decode P decrypted))"
proof -
  have "atob_bytes P (btoa_bytes P (getRandomValues rnd 12 @ ciphertext)) =
          Inr (getRandomValues rnd 12 @ ciphertext)"
    using assms(1) by (simp add: base64_inverts_def)
  then show ?thesis
    using assms(2) by (simp add: decryptMessage_def Let_def length_getRandomValues)
qed

text \<open>The envelope opened by the manager that made it.\<close>

lemma decryptMessage_same_key:
  assumes "aead_correct P" and "base64_inverts P" and "roomKeys em roomId = Some roomKey"
  shows "decryptMessage P em
           (btoa_bytes P (getRandomValues rnd 12 @
              subtle_encrypt P roomKey (getRandomValues rnd 12) (text_encode P message))) roomId =
         Inr (text_decode P (text_encode P message))"
proof -
  have "subtle_decrypt P roomKey (getRandomValues rnd 12)
          (subtle_encrypt P roomKey (getRandomValues rnd 12) (text_encode P message)) =
        Inr (text_encode P message)"
    using assms(1) by (simp only: aead_correct_def)
  then show ?thesis
    by (simp only: decryptMessage_of_envelope [OF assms(2) assms(3)] sum.case)
qed

text \<open>
  C5. For a room with no key in \<open>roomKeys\<close>, \<open>encryptMessage\<close> and \<open>decryptMessage\<close> both
  fail with \<open>NoRoomKey\<close>, for every plaintext, every envelope, every draw of the nonce
  and whatever the browser primitives would compute: none of them is consulted.
\<close>

theorem no_room_key_errors:
  assumes "roomKeys em roomId = None"
  shows "encryptMessage P em rnd message roomId = Inl NoRoomKey \<and>
         decryptMessage P em envelope roomId = Inl NoRoomKey"
  using assms by (simp add: encryptMessage_def decryptMessage_def)

theorem no_room_key_errors_witness:
  "roomKeys manager_A ''lobby'' = None \<and>
   encryptMessage ref_crypto manager_A zero_entropy ''hello'' ''lobby'' = Inl NoRoomKey \<and>
   decryptMessage ref_crypto manager_A ''AAAA'' ''lobby'' = Inl NoRoomKey"
proof -
  have h: "roomKeys manager_A ''lobby'' = None"
    by (simp add: manager_A_def generateRoomKey_def new_EncryptionManager_def)
  show ?thesis
    using h no_room_key_errors [OF h, of ref_crypto zero_entropy "''hello''" "''AAAA''"] by blast
qed

lemma content_message_from_A:
  "encryptMessage ref_crypto manager_A zero_entropy ''hello'' ''general'' = Inr (content message_from_A)"
proof -
  have "12 + length (subtle_encrypt ref_crypto 1 (getRandomValues zero_entropy 12)
                       (text_encode ref_crypto ''hello'')) \<le> argument_limit ref_crypto"
    by (simp add: ref_crypto_def)
  then have "encryptMessage ref_crypto manager_A zero_entropy ''hello'' ''general'' =
      Inr (btoa_bytes ref_crypto (getRandomValues zero_entropy 12 @
             subtle_encrypt ref_crypto 1 (getRandomValues zero_entropy 12)
               (text_encode ref_crypto ''hello'')))"
    by (simp only: encryptMessage_value [OF manager_A_key] if_True)
  then show ?thesis
    by (simp only: message_from_A_def chat_message.simps sum.case)
qed

text \<open>
  C2, as the code has it. For a room whose key is established in the manager and a
  plaintext that the text codec gives back unchanged, every envelope that
  \<open>encryptMessage\<close> returns is decrypted by \<open>decryptMessage\<close> on the same manager to
  the plaintext, for every draw of the nonce. The browser is any one whose AES-GCM and
  base64 invert. Nothing is said of a plaintext that the codec changes, nor of a call
  of \<open>encryptMessage\<close> that returns no envelope.
\<close>

theorem encrypt_decrypt_round_trip:
  assumes "aead_correct P" and "base64_inverts P" and "text_round_trips P message"
    and "roomKeys em roomId = Some roomKey"
    and "encryptMessage P em rnd message roomId = Inr envelope"
  shows "decryptMessage P em envelope roomId = Inr message"
proof -
  have "text_decode P (text_encode P message) = message"
    using assms(3) by (simp only: text_round_trips_def)
  then show ?thesis
    by (simp only: encryptMessage_envelope [OF assms(4) assms(5)]
          decryptMessage_same_key [OF assms(1) assms(2) assms(4)])
qed

theorem encrypt_decrypt_round_trip_witness:
  "encryptMessage ref_crypto manager_A zero_entropy ''hello'' ''general'' =
     Inr (content message_from_A) \<and>
   decryptMessage ref_crypto manager_A (content message_from_A) ''general'' = Inr ''hello''"
  using content_message_from_A
    encrypt_decrypt_round_trip [OF ref_crypto_aead_correct ref_crypto_base64_inverts
      hello_round_trips manager_A_key content_message_from_A]
  by (rule conjI)

text \<open>
  The claim as it was stated fails on a plaintext that starts with U+FEFF: the envelope
  decrypts, but to the text without the mark. And \<open>encryptMessage\<close> returns no envelope
  for a plaintext of 65536 characters on an engine that spreads 65535 arguments.
\<close>

theorem round_trip_byte_order_mark_counterexample:
  "encryptMessage ref_crypto manager_A zero_entropy marked_hello ''general'' =
     Inr (btoa_bytes ref_crypto (getRandomValues zero_entropy 12 @
            subtle_encrypt ref_crypto 1 (getRandomValues zero_entropy 12)
              (text_encode ref_crypto marked_hello))) \<and>
   decryptMessage ref_crypto manager_A
     (btoa_bytes ref_crypto (getRandomValues zero_entropy 12 @
        subtle_encrypt ref_crypto 1 (getRandomValues zero_entropy 12)
          (text_encode ref_crypto marked_hello))) ''general'' = Inr ''hello'' \<and>
   marked_hello \<noteq> ''hello'' \<and>
   encryptMessage ref_crypto manager_A zero_entropy long_plaintext ''general'' = Inl RangeError"
proof (intro conjI)
  have "12 + length (subtle_encrypt ref_crypto 1 (getRandomValues zero_entropy 12)
                       (text_encode ref_crypto marked_hello)) \<le> argument_limit ref_crypto"
    by (simp add: ref_crypto_def marked_hello_def)
  then show "encryptMessage ref_crypto manager_A zero_entropy marked_hello ''general'' =
     Inr (btoa_bytes ref_crypto (getRandomValues zero_entropy 12 @
            subtle_encrypt ref_crypto 1 (getRandomValues zero_entropy 12)
              (text_encode ref_crypto marked_hello)))"
    by (simp only: encryptMessage_value [OF manager_A_key] if_True)
  have te: "text_encode ref_crypto = map (\<lambda>c. of_nat (of_char c))"
    by (simp add: ref_crypto_def)
  have enc: "text_encode ref_crypto marked_hello = byte_order_mark @ text_encode ref_crypto ''hello''"
    by (simp add: te marked_hello_def byte_order_mark_def)
  have dec: "text_decode ref_crypto (byte_order_mark @ bs) = map (\<lambda>b. char_of (unat b)) bs" for bs
    by (simp add: ref_crypto_def byte_order_mark_def)
  have "text_decode ref_crypto (text_encode ref_crypto marked_hello) = ''hello''"
    by (simp only: enc dec) (simp only: te ref_crypto_decode_encode)
  then show "decryptMessage ref_crypto manager_A
     (btoa_bytes ref_crypto (getRandomValues zero_entropy 12 @
        subtle_encrypt ref_crypto 1 (getRandomValues zero_entropy 12)
          (text_encode ref_crypto marked_hello))) ''general'' = Inr ''hello''"
    by (simp only: decryptMessage_same_key [OF ref_crypto_aead_correct ref_crypto_base64_inverts
          manager_A_key])
  show "marked_hello \<noteq> ''hello''"
    by (simp add: marked_hello_def)
  have "\<not> 12 + length (subtle_encrypt ref_crypto 1 (getRandomValues zero_entropy 12)
                       (text_encode ref_crypto long_plaintext)) \<le> argument_limit ref_crypto"
    by (simp add: ref_crypto_def long_plaintext_def)
  then show "encryptMessage ref_crypto manager_A zero_entropy long_plaintext ''general'' =
      Inl RangeError"
    by (simp only: encryptMessage_value [OF manager_A_key] if_False)
qed

text \<open>
  An envelope made under one key and opened by a manager that holds another key for
  the room, on a browser whose authenticated encryption binds the key.
\<close>

lemma decryptMessage_other_key:
  assumes "aead_key_binding P" and "base64_inverts P"
    and "roomKeys emA roomId = Some keyA" and "roomKeys emB roomId = Some keyB"
    and "keyA \<noteq> keyB"
    and "encryptMessage P emA rnd plaintext roomId = Inr envelope"
  shows "decryptMessage P emB envelope roomId = Inl OperationError"
proof -
  let ?iv = "getRandomValues rnd 12"
  let ?ct = "subtle_encrypt P keyA ?iv (text_encode P plaintext)"
  have env: "envelope = btoa_bytes P (?iv @ ?ct)"
    by (rule encryptMessage_envelope [OF assms(3) assms(6)])
  have "subtle_decrypt P keyB ?iv ?ct = Inl OperationError"
    using assms(1) assms(5) by (simp add: aead_key_binding_def)
  then show ?thesis
    by (simp add: env decryptMessage_of_envelope [OF assms(2) assms(4)])
qed

text \<open>
  C4, as the code has it. Each call of \<open>encryptMessage\<close> uses the 12 bytes (96 bits)
  drawn in that call as its nonce: an envelope it returns decodes to that nonce followed
  by the AES-GCM output under that nonce. Of two calls on the same room key that return
  envelopes, the envelopes differ whenever the two draws differ, whatever the
  plaintexts are; when the two draws are the same bytes the nonce is used again, and
  for the same plaintext the envelope is the same. The code keeps no counter and no
  record of the nonces it has used.
\<close>

theorem distinct_nonces_distinct_envelopes:
  assumes "base64_inverts P" and "roomKeys em roomId = Some roomKey"
    and "encryptMessage P em rnd1 message1 roomId = Inr envelope1"
    and "encryptMessage P em rnd2 message2 roomId = Inr envelope2"
  shows "length (getRandomValues rnd1 12) = 12 \<and> length (getRandomValues rnd2 12) = 12 \<and>
         atob_bytes P envelope1 =
           Inr (getRandomValues rnd1 12 @
                subtle_encrypt P roomKey (getRandomValues rnd1 12) (text_encode P message1)) \<and>
         atob_bytes P envelope2 =
           Inr (getRandomValues rnd2 12 @
                subtle_encrypt P roomKey (getRandomValues rnd2 12) (text_encode P message2)) \<and>
         (getRandomValues rnd1 12 \<noteq> getRandomValues rnd2 12 \<longrightarrow> envelope1 \<noteq> envelope2) \<and>
         (getRandomValues rnd1 12 = getRandomValues rnd2 12 \<and> message1 = message2 \<longrightarrow>
            envelope1 = envelope2)"
proof -
  let ?iv1 = "getRandomValues rnd1 12" and ?iv2 = "getRandomValues rnd2 12"
  let ?c1 = "?iv1 @ subtle_encrypt P roomKey ?iv1 (text_encode P message1)"
  let ?c2 = "?iv2 @ subtle_encrypt P roomKey ?iv2 (text_encode P message2)"
  have e1: "envelope1 = btoa_bytes P ?c1"
    by (rule encryptMessage_envelope [OF assms(2) assms(3)])
  have e2: "envelope2 = btoa_bytes P ?c2"
    by (rule encryptMessage_envelope [OF assms(2) assms(4)])
  have d1: "atob_bytes P (btoa_bytes P ?c1) = Inr ?c1"
    using assms(1) by (simp only: base64_inverts_def)
  have d2: "atob_bytes P (btoa_bytes P ?c2) = Inr ?c2"
    using assms(1) by (simp only: base64_inverts_def)
  have differ: "btoa_bytes P ?c1 \<noteq> btoa_bytes P ?c2" if ne: "?iv1 \<noteq> ?iv2"
  proof
    assume eq: "btoa_bytes P ?c1 = btoa_bytes P ?c2"
    have "Inr ?c1 = atob_bytes P (btoa_bytes P ?c2)"
      using d1 by (simp only: eq)
    then have "?c1 = ?c2"
      by (simp only: d2 sum.inject)
    then have "take 12 ?c1 = take 12 ?c2"
      by (rule arg_cong)
    then have "?iv1 = ?iv2"
      by (simp only: take_append length_getRandomValues take_all order_refl diff_self_eq_0
            take_0 append_Nil2)
    with ne show False by (rule notE)
  qed
  have same: "btoa_bytes P ?c1 = btoa_bytes P ?c2" if "?iv1 = ?iv2 \<and> message1 = message2"
    using that by simp
  show ?thesis
    unfolding e1 e2
  proof (intro conjI impI)
    show "length ?iv1 = 12" and "length ?iv2 = 12"
      by (rule length_getRandomValues)+
    show "atob_bytes P (btoa_bytes P ?c1) = Inr ?c1"
      by (rule d1)
    show "atob_bytes P (btoa_bytes P ?c2) = Inr ?c2"
      by (rule d2)
    show "btoa_bytes P ?c1 \<noteq> btoa_bytes P ?c2" if "?iv1 \<noteq> ?iv2"
      by (rule differ [OF that])
    show "btoa_bytes P ?c1 = btoa_bytes P ?c2" if "?iv1 = ?iv2 \<and> message1 = message2"
      by (rule same [OF that])
  qed
qed

lemma zero_one_entropy_differ: "getRandomValues zero_entropy 12 \<noteq> getRandomValues one_entropy 12"
proof
  assume "getRandomValues zero_entropy 12 = getRandomValues one_entropy 12"
  then have "getRandomValues zero_entropy 12 ! 0 = getRandomValues one_entropy 12 ! 0" by simp
  then show False by (simp add: getRandomValues_def zero_entropy_def one_entropy_def)
qed

lemma repeated_entropy_same_draw: "getRandomValues repeated_entropy 12 = getRandomValues zero_entropy 12"
  by (simp add: getRandomValues_def repeated_entropy_def zero_entropy_def)

lemma repeated_entropy_envelope:
  "encryptMessage ref_crypto manager_A repeated_entropy ''hello'' ''general'' =
     Inr (content message_from_A)"
  using content_message_from_A
  by (simp only: encryptMessage_value [OF manager_A_key] repeated_entropy_same_draw)

lemma one_entropy_envelope:
  "encryptMessage ref_crypto manager_A one_entropy ''hello'' ''general'' =
     Inr (btoa_bytes ref_crypto (getRandomValues one_entropy 12 @
            subtle_encrypt ref_crypto 1 (getRandomValues one_entropy 12)
              (text_encode ref_crypto ''hello'')))"
proof -
  have "12 + length (subtle_encrypt ref_crypto 1 (getRandomValues one_entropy 12)
                       (text_encode ref_crypto ''hello'')) \<le> argument_limit ref_crypto"
    by (simp add: ref_crypto_def)
  then show ?thesis
    by (simp only: encryptMessage_value [OF manager_A_key] if_True)
qed

theorem distinct_nonces_distinct_envelopes_witness:
  "getRandomValues zero_entropy 12 \<noteq> getRandomValues one_entropy 12 \<and>
   encryptMessage ref_crypto manager_A zero_entropy ''hello'' ''general'' =
     Inr (content message_from_A) \<and>
   encryptMessage ref_crypto manager_A one_entropy ''hello'' ''general'' =
     Inr (btoa_bytes ref_crypto (getRandomValues one_entropy 12 @
            subtle_encrypt ref_crypto 1 (getRandomValues one_entropy 12)
              (text_encode ref_crypto ''hello''))) \<and>
   content message_from_A \<noteq>
     btoa_bytes ref_crypto (getRandomValues one_entropy 12 @
       subtle_encrypt ref_crypto 1 (getRandomValues one_entropy 12)
         (text_encode ref_crypto ''hello'')) \<and>
   getRandomValues repeated_entropy 12 = getRandomValues zero_entropy 12 \<and>
   encryptMessage ref_crypto manager_A repeated_entropy ''hello'' ''general'' =
     Inr (content message_from_A)"
  using zero_one_entropy_differ content_message_from_A one_entropy_envelope
    repeated_entropy_same_draw repeated_entropy_envelope
    distinct_nonces_distinct_envelopes [OF ref_crypto_base64_inverts manager_A_key
      content_message_from_A one_entropy_envelope]
  by blast

text \<open>
  The claim as it was stated fails when the random source gives the same 12 bytes to
  two calls: both calls encrypt under the same nonce and, for the same plaintext, return
  the same envelope.
\<close>

theorem repeated_draw_reuses_nonce_counterexample:
  "getRandomValues zero_entropy 12 = getRandomValues repeated_entropy 12 \<and>
   encryptMessage ref_crypto manager_A zero_entropy ''hello'' ''general'' =
     Inr (content message_from_A) \<and>
   encryptMessage ref_crypto manager_A repeated_entropy ''hello'' ''general'' =
     Inr (content message_from_A) \<and>
   atob_bytes ref_crypto (content message_from_A) =
     Inr (getRandomValues zero_entropy 12 @
          subtle_encrypt ref_crypto 1 (getRandomValues zero_entropy 12)
            (text_encode ref_crypto ''hello''))"
proof -
  have "content message_from_A =
      btoa_bytes ref_crypto (getRandomValues zero_entropy 12 @
        subtle_encrypt ref_crypto 1 (getRandomValues zero_entropy 12)
          (text_encode ref_crypto ''hello''))"
    by (rule encryptMessage_envelope [OF manager_A_key content_message_from_A])
  moreover have "atob_bytes ref_crypto
      (btoa_bytes ref_crypto (getRandomValues zero_entropy 12 @
        subtle_encrypt ref_crypto 1 (getRandomValues zero_entropy 12)
          (text_encode ref_crypto ''hello''))) =
      Inr (getRandomValues zero_entropy 12 @
        subtle_encrypt ref_crypto 1 (getRandomValues zero_entropy 12)
          (text_encode ref_crypto ''hello''))"
    using ref_crypto_base64_inverts by (simp only: base64_inverts_def)
  ultimately show ?thesis
    using content_message_from_A repeated_entropy_envelope repeated_entropy_same_draw
    by simp
qed

text \<open>
  C3. Replica A encrypts under its key for the room; replica B holds a different key
  for the same room and has the room open. Then B's \<open>decryptMessage\<close> of A's envelope
  fails with \<open>OperationError\<close>, the authentication failure of AES-GCM: it returns no
  plaintext. \<open>getDisplayContent\<close> catches the failure and gives the fixed placeholder.
  The browser is any one whose authenticated encryption binds the key and whose base64
  inverts.
\<close>

theorem cross_instance_fails_closed:
  assumes "aead_key_binding P" and "base64_inverts P"
    and "roomKeys emA roomId = Some keyA" and "roomKeys emB roomId = Some keyB"
    and "keyA \<noteq> keyB"
    and "encryptMessage P emA rnd plaintext roomId = Inr (content message)"
    and "encrypted message = Some True"
    and "selectedRoom st = Some roomId" and "roomId \<noteq> []"
  shows "decryptMessage P emB (content message) roomId = Inl OperationError \<and>
         getDisplayContent P emB st message = decryption_failed"
proof -
  have d: "decryptMessage P emB (content message) roomId = Inl OperationError"
    by (rule decryptMessage_other_key [OF assms(1-6)])
  then show ?thesis
    using assms(7-9) by (simp add: getDisplayContent_def truthy_def)
qed

theorem cross_instance_fails_closed_witness:
  "decryptMessage ref_crypto manager_B (content message_from_A) ''general'' = Inl OperationError \<and>
   getDisplayContent ref_crypto manager_B state_in_general message_from_A =
     ''[Encrypted message - decryption failed]''"
proof -
  have k: "(1 :: 8 word) \<noteq> 2" by simp
  have e: "encrypted message_from_A = Some True" by (simp add: message_from_A_def)
  have s: "selectedRoom state_in_general = Some ''general''" by (simp add: state_in_general_def)
  have r: "''general'' \<noteq> []" by simp
  show ?thesis
    using cross_instance_fails_closed [OF ref_crypto_aead_key_binding ref_crypto_base64_inverts
        manager_A_key manager_B_key k content_message_from_A e s r]
    by (simp add: decryption_failed_def)
qed

text \<open>
  C1, evaluated. Manager A holds key \<open>1\<close> for \<^verbatim>\<open>"general"\<close>. A second
  \<open>generateRoomKey\<close> for that room, as every \<open>joinRoom\<close> makes, returns the new key
  \<open>2\<close> and stores it over the old one; the message that A encrypted before no longer
  decrypts on A itself. \<open>generateKeyPair\<close>, on the same class, returns the stored pair.
\<close>

theorem generateRoomKey_replaces_stored_key:
  "roomKeys manager_A ''general'' = Some 1 \<and>
   fst (generateRoomKey (Inr 2) ''general'' manager_A) = Inr 2 \<and>
   roomKeys (snd (generateRoomKey (Inr 2) ''general'' manager_A)) ''general'' = Some 2 \<and>
   fst (joinRoom (Inr 2) 1700000060000 ''general'' (manager_A, state_in_general)) = manager_A_rejoined \<and>
   decryptMessage ref_crypto manager_A (content message_from_A) ''general'' = Inr ''hello'' \<and>
   decryptMessage ref_crypto manager_A_rejoined (content message_from_A) ''general'' = Inl OperationError \<and>
   fst (generateKeyPair (Inr 8) (manager_A\<lparr>keyPair := Some 7\<rparr>)) = Inr 7"
proof (intro conjI)
  show "roomKeys manager_A ''general'' = Some 1"
    by (rule manager_A_key)
  show "fst (generateRoomKey (Inr 2) ''general'' manager_A) = Inr 2"
    by (simp add: generateRoomKey_def)
  show "roomKeys (snd (generateRoomKey (Inr 2) ''general'' manager_A)) ''general'' = Some 2"
    by (simp add: generateRoomKey_def)
  show "fst (joinRoom (Inr 2) 1700000060000 ''general'' (manager_A, state_in_general)) =
      manager_A_rejoined"
    by (simp only: joinRoom_def manager_A_rejoined_def Let_def prod.case fst_conv)
  have "text_decode ref_crypto (text_encode ref_crypto ''hello'') = ''hello''"
    using hello_round_trips by (simp only: text_round_trips_def)
  then show "decryptMessage ref_crypto manager_A (content message_from_A) ''general'' = Inr ''hello''"
    by (simp only: encryptMessage_envelope [OF manager_A_key content_message_from_A]
          decryptMessage_same_key [OF ref_crypto_aead_correct ref_crypto_base64_inverts
            manager_A_key])
  have k2: "roomKeys manager_A_rejoined ''general'' = Some 2"
    by (simp add: manager_A_rejoined_def generateRoomKey_def)
  have k: "(1 :: 8 word) \<noteq> 2" by simp
  show "decryptMessage ref_crypto manager_A_rejoined (content message_from_A) ''general'' =
      Inl OperationError"
    by (rule decryptMessage_other_key [OF ref_crypto_aead_key_binding ref_crypto_base64_inverts
          manager_A_key k2 k content_message_from_A])
  show "fst (generateKeyPair (Inr 8) (manager_A\<lparr>keyPair := Some 7\<rparr>)) = Inr 7"
    by (simp add: generateKeyPair_def)
qed

subsection \<open>RealTimeSync\<close>

text \<open>
  \<open>saveData\<close> and \<open>loadData\<close> in closed form: every path of the \<^verbatim>\<open>try\<close> blocks ends in a
  normal return.
\<close>

lemma saveData_value:
  "saveData S sync data w =
     (if storage_accepts S (JSON_stringify S data)
      then (Inr (),
            (case channel sync of
               None \<Rightarrow> w\<lparr>localStorage := (localStorage w)(storageKey \<mapsto> JSON_stringify S data)\<rparr>
             | Some ch \<Rightarrow>
                 if closed ch
                 then w\<lparr>localStorage := (localStorage w)(storageKey \<mapsto> JSON_stringify S data)\<rparr>
                 else w\<lparr>localStorage := (localStorage w)(storageKey \<mapsto> JSON_stringify S data),
                        bus := bus w @ [DataUpdate data]\<rparr>))
      else (Inr (), w))"
  by (simp add: saveData_def js_catch_def js_bind_def js_return_def localStorage_setItem_def
        postMessage_def split: option.split)

lemma loadData_value:
  "loadData S w =
     (Inr (if storage_readable S
           then (case localStorage w storageKey of
                   None \<Rightarrow> None
                 | Some text \<Rightarrow>
                     if empty_text S text then None
                     else (case JSON_parse S text of Inl e \<Rightarrow> None | Inr v \<Rightarrow> v))
           else None), w)"
  by (simp add: loadData_def js_catch_def js_bind_def js_return_def js_lift_def
        localStorage_getItem_def split: option.split sum.split)

text \<open>
  C8. \<open>loadData\<close> always returns normally and leaves the world as it was; it returns
  \<^verbatim>\<open>null\<close> when nothing is stored under the key, and equally when the stored payload
  makes \<^verbatim>\<open>JSON.parse\<close> throw.
\<close>

theorem loadData_total_and_non_fatal:
  "(\<exists>v. loadData S w = (Inr v, w)) \<and>
   (localStorage w storageKey = None \<or>
    (\<exists>text e. localStorage w storageKey = Some text \<and> JSON_parse S text = Inl e)
    \<longrightarrow> loadData S w = (Inr None, w))"
  by (auto simp add: loadData_value)

theorem loadData_total_and_non_fatal_witness:
  "localStorage world_corrupt storageKey = Some NotJson \<and>
   JSON_parse ref_storage NotJson = Inl SyntaxError \<and>
   loadData ref_storage world_corrupt = (Inr None, world_corrupt) \<and>
   localStorage world_empty storageKey = None \<and>
   loadData ref_storage world_empty = (Inr None, world_empty)"
proof -
  have c: "localStorage world_corrupt storageKey = Some NotJson"
    by (simp add: world_corrupt_def)
  have p: "JSON_parse ref_storage NotJson = Inl SyntaxError"
    by (simp add: ref_storage_def)
  have a: "localStorage world_empty storageKey = None"
    by (simp add: world_empty_def)
  show ?thesis
    using c p a loadData_total_and_non_fatal [of ref_storage world_corrupt]
      loadData_total_and_non_fatal [of ref_storage world_empty]
    by blast
qed

text \<open>
  C10. \<open>saveData\<close> never throws. When \<^verbatim>\<open>localStorage.setItem\<close> throws, the call changes
  nothing: no message is posted and the error is swallowed. A call posts at most its
  own \<^verbatim>\<open>data-update\<close> message, and when it has posted, the store holds the payload it
  wrote: the publish comes after a write that succeeded.
\<close>

theorem persist_before_publish:
  "fst (saveData S sync data w) = Inr () \<and>
   (\<not> storage_accepts S (JSON_stringify S data) \<longrightarrow> snd (saveData S sync data w) = w) \<and>
   (bus (snd (saveData S sync data w)) = bus w \<or>
    bus (snd (saveData S sync data w)) = bus w @ [DataUpdate data] \<and>
    storage_accepts S (JSON_stringify S data) \<and>
    localStorage (snd (saveData S sync data w)) storageKey = Some (JSON_stringify S data))"
  by (simp add: saveData_value split: option.split)

theorem persist_before_publish_witness:
  "\<not> storage_accepts full_storage (JSON_stringify full_storage snapshot_0) \<and>
   snd (saveData full_storage sync_0 snapshot_0 world_empty) = world_empty \<and>
   fst (saveData full_storage sync_0 snapshot_0 world_empty) = Inr ()"
proof -
  have h: "\<not> storage_accepts full_storage (JSON_stringify full_storage snapshot_0)"
    by (simp add: full_storage_def)
  show ?thesis
    using h persist_before_publish [of full_storage sync_0 snapshot_0 world_empty]
    by blast
qed

text \<open>Subscribing does not reopen a channel: after \<open>close\<close> it stays closed.\<close>

lemma channel_after_close:
  "channel (close sync) = None \<or> (\<exists>ch. channel (close sync) = Some ch \<and> closed ch)"
  by (simp add: close_def split: option.split)

lemma channel_after_onUpdate:
  assumes "channel sync = None \<or> (\<exists>ch. channel sync = Some ch \<and> closed ch)"
  shows "channel (onUpdate callback sync) = None \<or>
         (\<exists>ch. channel (onUpdate callback sync) = Some ch \<and> closed ch)"
  using assms by (auto simp add: onUpdate_def)

lemma channel_after_subscriptions:
  assumes "channel sync = None \<or> (\<exists>ch. channel sync = Some ch \<and> closed ch)"
  shows "channel (fold onUpdate callbacks sync) = None \<or>
         (\<exists>ch. channel (fold onUpdate callbacks sync) = Some ch \<and> closed ch)"
  using assms
proof (induction callbacks arbitrary: sync)
  case Nil
  then show ?case by simp
next
  case (Cons callback callbacks)
  have "channel (onUpdate callback sync) = None \<or>
        (\<exists>ch. channel (onUpdate callback sync) = Some ch \<and> closed ch)"
    by (rule channel_after_onUpdate [OF Cons.prems])
  then show ?case
    using Cons.IH by simp
qed

text \<open>
  C9, as the code has it. After \<open>close\<close>, and after any further \<open>onUpdate\<close> calls, a
  \<open>saveData\<close> returns normally and posts nothing on the bus, but it still writes the
  snapshot to the store whenever the store takes it; no message that arrives is
  delivered to a callback.
\<close>

theorem after_close:
  "fst (saveData S (fold onUpdate callbacks (close sync)) data w) = Inr () \<and>
   bus (snd (saveData S (fold onUpdate callbacks (close sync)) data w)) = bus w \<and>
   localStorage (snd (saveData S (fold onUpdate callbacks (close sync)) data w)) =
     (if storage_accepts S (JSON_stringify S data)
      then (localStorage w)(storageKey \<mapsto> JSON_stringify S data)
      else localStorage w) \<and>
   receive (fold onUpdate callbacks (close sync)) event st = st"
proof -
  have "channel (fold onUpdate callbacks (close sync)) = None \<or>
        (\<exists>ch. channel (fold onUpdate callbacks (close sync)) = Some ch \<and> closed ch)"
    by (rule channel_after_subscriptions [OF channel_after_close])
  then show ?thesis
    by (auto simp add: saveData_value receive_def dispatch_def)
qed

theorem save_after_close_counterexample:
  "localStorage world_empty storageKey = None \<and>
   localStorage (snd (saveData ref_storage (close sync_0) snapshot_0 world_empty)) storageKey =
     Some (Json (Some snapshot_0))"
  by (simp add: saveData_value world_empty_def ref_storage_def close_def sync_0_def
        new_RealTimeSync_def)

subsection \<open>ChatApp: the update handler and the session-end cleanup\<close>

text \<open>
  What the callback does to the lists, whatever it closed over; and the lookup of a room
  id that names an inherited member.
\<close>

lemma onUpdate_callback_lists:
  "onlineUsers (onUpdate_callback room nick data st) = or_empty (users data) \<and>
   chatRooms (onUpdate_callback room nick data st) = or_empty (rooms data) \<and>
   messages_state (onUpdate_callback None nick data st) = messages_state st"
  by (simp add: onUpdate_callback_def split: option.split)

lemma onUpdate_callback_inherited_member:
  "messages_state
     (onUpdate_callback (Some ''constructor'') nick (data\<lparr>messages := Some Map.empty\<rparr>) st) =
   InheritedMember ''constructor''"
  by (simp add: onUpdate_callback_def object_get_def Object_prototype_keys_def)



text \<open>A save that the store takes, read back through a JSON that inverts.\<close>

lemma saveData_then_loadData:
  assumes "json_inverts S" and "storage_readable S"
    and "storage_accepts S (JSON_stringify S data)"
  shows "\<exists>w'. saveData S sync data w = (Inr (), w') \<and> loadData S w' = (Inr (Some data), w')"
proof -
  have j: "JSON_parse S (JSON_stringify S data) = Inr (Some data)"
      "\<not> empty_text S (JSON_stringify S data)"
    using assms(1) by (simp_all add: json_inverts_def)
  have "fst (saveData S sync data w) = Inr ()"
    by (simp add: saveData_value)
  then obtain w' where s: "saveData S sync data w = (Inr (), w')"
    by (cases "saveData S sync data w") simp
  then have "localStorage w' storageKey = Some (JSON_stringify S data)"
    using assms(3) by (auto simp add: saveData_value split: option.splits if_splits)
  then have "loadData S w' = (Inr (Some data), w')"
    using assms(2) j by (simp add: loadData_value)
  with s show ?thesis by blast
qed

text \<open>
  The cleanup of a temporary session in closed form: two saves, the second built on the
  first read back, with the users taken from the replica's own list.
\<close>

lemma handleBeforeUnload_value:
  assumes "json_inverts S" and "storage_readable S"
    and "\<And>d. storage_accepts S (JSON_stringify S d)"
    and "loadData S w = (Inr (Some stored), w)"
    and "accounts stored = Some accs"
    and "currentAccount st = Some acct" and "isTemporary acct = Some True"
  shows "\<exists>w'. handleBeforeUnload S sync st w = (Inr (), w') \<and>
           loadData S w' =
             (Inr (Some (stored\<lparr>accounts := Some (filter (\<lambda>acc. acc_id acc \<noteq> acc_id acct) accs),
                                users := Some (filter (\<lambda>user. user_id user \<noteq> currentUserId st)
                                                (onlineUsers st))\<rparr>)), w')"
proof -
  let ?d1 = "stored\<lparr>accounts := Some (filter (\<lambda>acc. acc_id acc \<noteq> acc_id acct) accs)\<rparr>"
  let ?d2 = "?d1\<lparr>users := Some (filter (\<lambda>user. user_id user \<noteq> currentUserId st) (onlineUsers st))\<rparr>"
  obtain w1 where s1: "saveData S sync ?d1 w = (Inr (), w1)"
    and l1: "loadData S w1 = (Inr (Some ?d1), w1)"
    using saveData_then_loadData [OF assms(1) assms(2) assms(3)] by blast
  obtain w2 where s2: "saveData S sync ?d2 w1 = (Inr (), w2)"
    and l2: "loadData S w2 = (Inr (Some ?d2), w2)"
    using saveData_then_loadData [OF assms(1) assms(2) assms(3)] by blast
  have "handleBeforeUnload S sync st w = (Inr (), w2)"
    by (simp add: handleBeforeUnload_def js_catch_def js_bind_def assms(4-7) s1 l1 s2)
  with l2 show ?thesis by blast
qed

text \<open>
  C7, as the code has it. A temporary session ends; the store holds a snapshot with an
  accounts list, the store is readable and writable and JSON inverts. Then the cleanup
  returns normally and leaves in the store the snapshot with its rooms and messages
  unchanged, its accounts without every account that has the temporary account's id,
  and, as users, the replica's own users list without the entries that have the
  session's user id: the stored users list is overwritten, not filtered.
\<close>

theorem temporary_account_purge:
  assumes "json_inverts S" and "storage_readable S"
    and "\<forall>d. storage_accepts S (JSON_stringify S d)"
    and "loadData S w = (Inr (Some stored), w)"
    and "accounts stored = Some accs"
    and "currentAccount st = Some acct" and "isTemporary acct = Some True"
  shows "\<exists>w'. handleBeforeUnload S sync st w = (Inr (), w') \<and>
           loadData S w' =
             (Inr (Some (stored\<lparr>accounts := Some (filter (\<lambda>acc. acc_id acc \<noteq> acc_id acct) accs),
                                users := Some (filter (\<lambda>user. user_id user \<noteq> currentUserId st)
                                                (onlineUsers st))\<rparr>)), w')"
proof -
  have a: "storage_accepts S (JSON_stringify S d)" for d
    using assms(3) by simp
  show ?thesis
    by (rule handleBeforeUnload_value [OF assms(1) assms(2) a assms(4-7)])
qed

lemma world_0_holds_snapshot_0: "loadData ref_storage world_0 = (Inr (Some snapshot_0), world_0)"
  by (simp add: loadData_value world_0_def ref_storage_def)

theorem temporary_account_purge_witness:
  "\<exists>w'. handleBeforeUnload ref_storage sync_0 state_tmp world_0 = (Inr (), w') \<and>
     loadData ref_storage w' =
       (Inr (Some \<lparr>users = Some [user_dave], rooms = Some [room_general],
                    messages = Some [''general'' \<mapsto> [message_from_A]],
                    accounts = Some [account_carol]\<rparr>), w')"
proof -
  have r: "storage_readable ref_storage"
    by (simp add: ref_storage_def)
  have a: "\<forall>d. storage_accepts ref_storage (JSON_stringify ref_storage d)"
    by (simp add: ref_storage_def)
  have s: "accounts snapshot_0 = Some [account_tmp, account_carol]"
    by (simp add: snapshot_0_def)
  have c: "currentAccount state_tmp = Some account_tmp"
    by (simp add: state_tmp_def)
  have t: "isTemporary account_tmp = Some True"
    by (simp add: account_tmp_def)
  have f: "snapshot_0\<lparr>accounts := Some (filter (\<lambda>acc. acc_id acc \<noteq> acc_id account_tmp)
                                          [account_tmp, account_carol]),
                      users := Some (filter (\<lambda>user. user_id user \<noteq> currentUserId state_tmp)
                                       (onlineUsers state_tmp))\<rparr> =
           \<lparr>users = Some [user_dave], rooms = Some [room_general],
            messages = Some [''general'' \<mapsto> [message_from_A]],
            accounts = Some [account_carol]\<rparr>"
    by (simp add: snapshot_0_def state_tmp_def account_tmp_def account_carol_def user_tmp_def
          user_dave_def)
  show ?thesis
    using temporary_account_purge [OF ref_storage_json_inverts r a world_0_holds_snapshot_0 s c t,
        of sync_0]
    by (simp only: f)
qed

theorem purge_overwrites_users_counterexample:
  "users snapshot_0 = Some [user_tmp, user_dave] \<and>
   user_id user_dave \<noteq> currentUserId state_tmp_stale \<and>
   fst (loadData ref_storage (snd (handleBeforeUnload ref_storage sync_0 state_tmp_stale world_0))) =
     Inr (Some \<lparr>users = Some [], rooms = Some [room_general],
                messages = Some [''general'' \<mapsto> [message_from_A]],
                accounts = Some [account_carol]\<rparr>)"
proof -
  have r: "storage_readable ref_storage"
    by (simp add: ref_storage_def)
  have a: "storage_accepts ref_storage (JSON_stringify ref_storage d)" for d
    by (simp add: ref_storage_def)
  have s: "accounts snapshot_0 = Some [account_tmp, account_carol]"
    by (simp add: snapshot_0_def)
  have c: "currentAccount state_tmp_stale = Some account_tmp"
    by (simp add: state_tmp_stale_def state_tmp_def)
  have t: "isTemporary account_tmp = Some True"
    by (simp add: account_tmp_def)
  have f: "snapshot_0\<lparr>accounts := Some (filter (\<lambda>acc. acc_id acc \<noteq> acc_id account_tmp)
                                          [account_tmp, account_carol]),
                      users := Some (filter (\<lambda>user. user_id user \<noteq> currentUserId state_tmp_stale)
                                       (onlineUsers state_tmp_stale))\<rparr> =
           \<lparr>users = Some [], rooms = Some [room_general],
            messages = Some [''general'' \<mapsto> [message_from_A]],
            accounts = Some [account_carol]\<rparr>"
    by (simp add: snapshot_0_def state_tmp_stale_def state_tmp_def account_tmp_def
          account_carol_def user_tmp_def)
  obtain w' where h: "handleBeforeUnload ref_storage sync_0 state_tmp_stale world_0 = (Inr (), w')"
    and l: "loadData ref_storage w' =
       (Inr (Some \<lparr>users = Some [], rooms = Some [room_general],
                    messages = Some [''general'' \<mapsto> [message_from_A]],
                    accounts = Some [account_carol]\<rparr>), w')"
    using handleBeforeUnload_value [OF ref_storage_json_inverts r a world_0_holds_snapshot_0 s c t,
        of sync_0]
    by (simp only: f) blast
  have u: "users snapshot_0 = Some [user_tmp, user_dave]"
    by (simp add: snapshot_0_def)
  have d: "user_id user_dave \<noteq> currentUserId state_tmp_stale"
    by (simp add: user_dave_def state_tmp_stale_def state_tmp_def)
  show ?thesis
    by (simp add: u d h l)
qed

end
